theory Spec2Isabelle
  imports Complex_Main
begin

section \<open>The account model of \<^verbatim>\<open>src/Hackathon/main.py\<close>\<close>

text \<open>
  Python's \<^verbatim>\<open>float\<close> balances and amounts are modelled as \<^typ>\<open>real\<close>: the
  ledger is read as exact currency arithmetic. Every exception of the source is a value
  of type \<open>error\<close> carrying the message of the raised \<^verbatim>\<open>BankingError\<close> (or the key
  of a \<^verbatim>\<open>KeyError\<close>). A method that mutates \<^verbatim>\<open>self\<close> returns its outcome together
  with the object as it is when the method returns or raises. The wall clock read by
  \<^verbatim>\<open>_add_transaction\<close> is an explicit argument.
\<close>

datatype AccountType = SAVINGS | CURRENT

datatype TransactionType =
  DEPOSIT | WITHDRAWAL | TRANSFER_SENT | TRANSFER_RECEIVED | INTEREST_CREDIT

fun TransactionType_value :: "TransactionType \<Rightarrow> string" where
  "TransactionType_value DEPOSIT = ''Deposit''"
| "TransactionType_value WITHDRAWAL = ''Withdrawal''"
| "TransactionType_value TRANSFER_SENT = ''Transfer Sent''"
| "TransactionType_value TRANSFER_RECEIVED = ''Transfer Received''"
| "TransactionType_value INTEREST_CREDIT = ''Interest Credit''"

datatype error = BankingError string | KeyError string

type_synonym timestamp = string

record transaction =
  tx_timestamp :: timestamp
  tx_type :: string
  tx_amount :: real
  tx_balance :: real

record account =
  account_number :: string
  account_holder :: string
  balance :: real
  transactions :: "transaction list"
  account_type :: AccountType
  is_active :: bool

definition Account_init :: "string \<Rightarrow> string \<Rightarrow> AccountType \<Rightarrow> account" where
  "Account_init num holder ty =
     \<lparr>account_number = num, account_holder = holder, balance = 0,
      transactions = [], account_type = ty, is_active = True\<rparr>"

definition SavingsAccount_init :: "string \<Rightarrow> string \<Rightarrow> account" where
  "SavingsAccount_init num holder = Account_init num holder SAVINGS"

definition CurrentAccount_init :: "string \<Rightarrow> string \<Rightarrow> account" where
  "CurrentAccount_init num holder = Account_init num holder CURRENT"

definition INTEREST_RATE :: real where
  "INTEREST_RATE = 45 / 1000"

definition MINIMUM_BALANCE :: real where
  "MINIMUM_BALANCE = 1000"

definition OVERDRAFT_LIMIT :: real where
  "OVERDRAFT_LIMIT = 10000"

definition add_transaction ::
  "account \<Rightarrow> timestamp \<Rightarrow> TransactionType \<Rightarrow> real \<Rightarrow> account" where
  "add_transaction a now ty amount =
     a\<lparr>transactions := transactions a @
        [\<lparr>tx_timestamp = now, tx_type = TransactionType_value ty,
          tx_amount = amount, tx_balance = balance a\<rparr>]\<rparr>"

definition deposit :: "account \<Rightarrow> timestamp \<Rightarrow> real \<Rightarrow> (error + bool) \<times> account" where
  "deposit a now amount =
     (if \<not> is_active a then (Inl (BankingError ''Account is inactive''), a)
      else if amount \<le> 0 then (Inl (BankingError ''Invalid deposit amount''), a)
      else (Inr True, add_transaction (a\<lparr>balance := balance a + amount\<rparr>) now DEPOSIT amount))"

text \<open>\<^verbatim>\<open>Account.withdraw\<close>, the shared base method reached through \<^verbatim>\<open>super()\<close>.\<close>

definition Account_withdraw ::
  "account \<Rightarrow> timestamp \<Rightarrow> real \<Rightarrow> (error + bool) \<times> account" where
  "Account_withdraw a now amount =
     (if \<not> is_active a then (Inl (BankingError ''Account is inactive''), a)
      else if amount \<le> 0 then (Inl (BankingError ''Invalid withdrawal amount''), a)
      else if amount > balance a then (Inl (BankingError ''Insufficient balance''), a)
      else (Inr True,
            add_transaction (a\<lparr>balance := balance a - amount\<rparr>) now WITHDRAWAL (- amount)))"

definition SavingsAccount_withdraw ::
  "account \<Rightarrow> timestamp \<Rightarrow> real \<Rightarrow> (error + bool) \<times> account" where
  "SavingsAccount_withdraw a now amount =
     (if balance a - amount < MINIMUM_BALANCE
      then (Inl (BankingError ''Must maintain minimum balance of 1000.0''), a)
      else Account_withdraw a now amount)"

definition CurrentAccount_withdraw ::
  "account \<Rightarrow> timestamp \<Rightarrow> real \<Rightarrow> (error + bool) \<times> account" where
  "CurrentAccount_withdraw a now amount =
     (if balance a - amount < - OVERDRAFT_LIMIT
      then (Inl (BankingError ''Exceeds overdraft limit of 10000.0''), a)
      else Account_withdraw a now amount)"

text \<open>
  Dynamic dispatch: an object is a \<^verbatim>\<open>SavingsAccount\<close> exactly when its constructor set
  the type tag to \<open>SAVINGS\<close>, and a \<^verbatim>\<open>CurrentAccount\<close> otherwise.
\<close>

definition withdraw :: "account \<Rightarrow> timestamp \<Rightarrow> real \<Rightarrow> (error + bool) \<times> account" where
  "withdraw a now amount =
     (case account_type a of
        SAVINGS \<Rightarrow> SavingsAccount_withdraw a now amount
      | CURRENT \<Rightarrow> CurrentAccount_withdraw a now amount)"

definition SavingsAccount_calculate_interest :: "account \<Rightarrow> timestamp \<Rightarrow> real \<times> account" where
  "SavingsAccount_calculate_interest a now =
     (let monthly_interest = (balance a * INTEREST_RATE) / 12
      in (monthly_interest,
          add_transaction (a\<lparr>balance := balance a + monthly_interest\<rparr>) now
            INTEREST_CREDIT monthly_interest))"

definition CurrentAccount_calculate_interest :: "account \<Rightarrow> timestamp \<Rightarrow> real \<times> account" where
  "CurrentAccount_calculate_interest a now = (0, a)"

definition calculate_interest :: "account \<Rightarrow> timestamp \<Rightarrow> real \<times> account" where
  "calculate_interest a now =
     (case account_type a of
        SAVINGS \<Rightarrow> SavingsAccount_calculate_interest a now
      | CURRENT \<Rightarrow> CurrentAccount_calculate_interest a now)"

definition get_balance :: "account \<Rightarrow> real" where
  "get_balance a = balance a"

definition toggle_account_status :: "account \<Rightarrow> account" where
  "toggle_account_status a = a\<lparr>is_active := \<not> is_active a\<rparr>"

section \<open>Users and the bank\<close>

text \<open>
  \<^verbatim>\<open>hashlib.sha256(password.encode()).hexdigest()\<close> is a library function, not code of
  the repository: the operations that hash a password take it as the parameter \<open>sha\<close>.
\<close>

record user =
  username :: string
  password_hash :: string

definition hash_password :: "(string \<Rightarrow> string) \<Rightarrow> string \<Rightarrow> string" where
  "hash_password sha password = sha password"

definition User_init :: "(string \<Rightarrow> string) \<Rightarrow> string \<Rightarrow> string \<Rightarrow> user" where
  "User_init sha uname password =
     \<lparr>username = uname, password_hash = hash_password sha password\<rparr>"


text \<open>
  The three dictionaries of \<^verbatim>\<open>Bank\<close>. An account object is held only by
  \<^verbatim>\<open>_accounts\<close>, under its own number, so the map is the store of the account objects and
  an account number is the reference to one.
\<close>

record bank =
  accounts :: "string \<rightharpoonup> account"
  users :: "string \<rightharpoonup> user"
  account_holders :: "string \<rightharpoonup> string list"

definition Bank_init :: bank where
  "Bank_init = \<lparr>accounts = Map.empty, users = Map.empty, account_holders = Map.empty\<rparr>"

subsection \<open>The regular expressions\<close>

definition is_upper :: "char \<Rightarrow> bool" where
  "is_upper c = (65 \<le> (of_char c :: nat) \<and> (of_char c :: nat) \<le> 90)"

definition is_lower :: "char \<Rightarrow> bool" where
  "is_lower c = (97 \<le> (of_char c :: nat) \<and> (of_char c :: nat) \<le> 122)"

definition is_digit :: "char \<Rightarrow> bool" where
  "is_digit c = (48 \<le> (of_char c :: nat) \<and> (of_char c :: nat) \<le> 57)"

text \<open>
  \<^verbatim>\<open>\s\<close> in a \<^verbatim>\<open>str\<close> pattern: the characters \<^verbatim>\<open>str.isspace\<close> accepts, which below
  code point 256 are 9 to 13, 28 to 32, 133 and 160.
\<close>

definition is_space :: "char \<Rightarrow> bool" where
  "is_space c = (of_char c \<in> {9, 10, 11, 12, 13, 28, 29, 30, 31, 32, 133, 160 :: nat})"

text \<open>The class \<^verbatim>\<open>[!@#$%^&*(),.?":{}|<>]\<close>.\<close>

definition is_special :: "char \<Rightarrow> bool" where
  "is_special c =
     (of_char c \<in> {33, 64, 35, 36, 37, 94, 38, 42, 40, 41, 44, 46, 63, 34, 58, 123, 125,
        124, 60, 62 :: nat})"

text \<open>
  \<^verbatim>\<open>$\<close> without \<^verbatim>\<open>re.MULTILINE\<close> matches at the end of the string and also just before
  a newline that is the last character of the string.
\<close>

definition at_dollar :: "string \<Rightarrow> bool" where
  "at_dollar rest = (rest = [] \<or> rest = [CHR 0x0A])"

text \<open>
  \<^verbatim>\<open>re.match(r'^[cls]{lo,hi}$', s)\<close>: some number \<open>k\<close> of repetitions between \<open>lo\<close> and
  \<open>hi\<close> consumes \<open>k\<close> characters of the class and leaves a rest at which \<^verbatim>\<open>$\<close> matches.
\<close>

definition match_class_repeat :: "(char \<Rightarrow> bool) \<Rightarrow> nat \<Rightarrow> nat \<Rightarrow> string \<Rightarrow> bool" where
  "match_class_repeat cls lo hi s =
     list_ex (\<lambda>k. k \<le> length s \<and> list_all cls (take k s) \<and> at_dollar (drop k s))
       [lo ..< Suc hi]"

definition validate_name :: "string \<Rightarrow> bool" where
  "validate_name name =
     match_class_repeat (\<lambda>c. is_upper c \<or> is_lower c \<or> is_space c) 2 50 name"

definition validate_username :: "string \<Rightarrow> bool" where
  "validate_username uname =
     match_class_repeat (\<lambda>c. is_upper c \<or> is_lower c \<or> is_digit c \<or> c = CHR ''_'') 4 20 uname"

definition validate_password :: "string \<Rightarrow> bool" where
  "validate_password password =
     (if length password < 8 then False
      else if \<not> list_ex is_upper password then False
      else if \<not> list_ex is_lower password then False
      else if \<not> list_ex is_digit password then False
      else if \<not> list_ex is_special password then False
      else True)"

subsection \<open>Account numbers\<close>

text \<open>
  \<^verbatim>\<open>random.randint(0, 9)\<close> is modelled by the list \<open>rng\<close> of the values it returns, in
  order; each is between 0 and 9, so \<^verbatim>\<open>str\<close> of it is one decimal digit. The loop of
  \<^verbatim>\<open>_generate_account_number\<close> draws ten values per round; when the list holds fewer than
  ten values the loop has not returned, which is the result \<open>None\<close>.
\<close>

definition str_digit :: "nat \<Rightarrow> char" where
  "str_digit d = ''0123456789'' ! d"

function generate_account_number :: "bank \<Rightarrow> nat list \<Rightarrow> string option" where
  "generate_account_number b rng =
     (if length rng < 10 then None
      else if map str_digit (take 10 rng) \<notin> dom (accounts b)
           then Some (map str_digit (take 10 rng))
           else generate_account_number b (drop 10 rng))"
  by pat_completeness auto
termination
  by (relation "measure (\<lambda>(b, rng). length rng)") auto

declare generate_account_number.simps [simp del]

subsection \<open>Operations of the bank\<close>

definition create_user ::
  "(string \<Rightarrow> string) \<Rightarrow> bank \<Rightarrow> string \<Rightarrow> string \<Rightarrow> (error + bool) \<times> bank" where
  "create_user sha b uname password =
     (if \<not> validate_username uname
        then (Inl (BankingError ''Invalid username format''), b)
      else if \<not> validate_password password
        then (Inl (BankingError ''Password does not meet security requirements''), b)
      else if uname \<in> dom (users b)
        then (Inl (BankingError ''Username already exists''), b)
      else (Inr True,
            b\<lparr>users := (users b)(uname \<mapsto> User_init sha uname password),
              account_holders := (account_holders b)(uname \<mapsto> [])\<rparr>))"


text \<open>
  \<^verbatim>\<open>open_account\<close> stores the new account and only then indexes
  \<^verbatim>\<open>_account_holders[username]\<close>, which raises \<^verbatim>\<open>KeyError\<close> on a missing key: the
  bank returned with the error is the bank as the exception leaves it.
\<close>

definition open_account ::
  "bank \<Rightarrow> nat list \<Rightarrow> string \<Rightarrow> string \<Rightarrow> AccountType \<Rightarrow> ((error + string) \<times> bank) option" where
  "open_account b rng uname holder ty =
     (if \<not> validate_name holder
        then Some (Inl (BankingError ''Invalid account holder name''), b)
      else
        (case generate_account_number b rng of
           None \<Rightarrow> None
         | Some num \<Rightarrow>
             (let account = (if ty = SAVINGS then SavingsAccount_init num holder
                             else CurrentAccount_init num holder);
                  b1 = b\<lparr>accounts := (accounts b)(num \<mapsto> account)\<rparr>
              in case account_holders b1 uname of
                   None \<Rightarrow> Some (Inl (KeyError uname), b1)
                 | Some owned \<Rightarrow>
                     Some (Inr num,
                           b1\<lparr>account_holders :=
                                (account_holders b1)(uname \<mapsto> owned @ [num])\<rparr>))))"

definition get_account :: "bank \<Rightarrow> string \<Rightarrow> account option" where
  "get_account b num = accounts b num"

definition get_user_accounts :: "bank \<Rightarrow> string \<Rightarrow> string list" where
  "get_user_accounts b uname = (case account_holders b uname of None \<Rightarrow> [] | Some owned \<Rightarrow> owned)"

definition put_account :: "bank \<Rightarrow> string \<Rightarrow> account \<Rightarrow> bank" where
  "put_account b num a = b\<lparr>accounts := (accounts b)(num \<mapsto> a)\<rparr>"

text \<open>
  \<^verbatim>\<open>transfer\<close> reads the clock four times (\<open>t1\<close> to \<open>t4\<close>). \<^verbatim>\<open>sender\<close> and
  \<^verbatim>\<open>receiver\<close> are references: when both numbers are the same they are one object, so
  each step works on the object as the step before left it.
\<close>

definition transfer ::
  "bank \<Rightarrow> timestamp \<Rightarrow> timestamp \<Rightarrow> timestamp \<Rightarrow> timestamp \<Rightarrow> string \<Rightarrow> string \<Rightarrow> real
     \<Rightarrow> (error + bool) \<times> bank" where
  "transfer b t1 t2 t3 t4 sender_number receiver_number amount =
     (if amount \<le> 0 then (Inl (BankingError ''Invalid transfer amount''), b)
      else
        (case (get_account b sender_number, get_account b receiver_number) of
           (Some sender, Some receiver) \<Rightarrow>
             if \<not> is_active sender \<or> \<not> is_active receiver
               then (Inl (BankingError ''One or both accounts are inactive''), b)
             else
               (case withdraw sender t1 amount of
                  (Inl e, sender1) \<Rightarrow> (Inl e, put_account b sender_number sender1)
                | (Inr _, sender1) \<Rightarrow>
                    (let b1 = put_account b sender_number sender1;
                         receiver1 = (if receiver_number = sender_number then sender1
                                      else receiver)
                     in case deposit receiver1 t2 amount of
                          (Inl e, receiver2) \<Rightarrow> (Inl e, put_account b1 receiver_number receiver2)
                        | (Inr _, receiver2) \<Rightarrow>
                            (let b2 = put_account b1 receiver_number receiver2;
                                 sender2 = (if sender_number = receiver_number then receiver2
                                            else sender1);
                                 sender3 = add_transaction sender2 t3 TRANSFER_SENT (- amount);
                                 b3 = put_account b2 sender_number sender3;
                                 receiver3 = (if receiver_number = sender_number then sender3
                                              else receiver2);
                                 receiver4 =
                                   add_transaction receiver3 t4 TRANSFER_RECEIVED amount
                             in (Inr True, put_account b3 receiver_number receiver4))))
         | _ \<Rightarrow> (Inl (BankingError ''Invalid account number(s)''), b)))"

section \<open>Sequences of operations and example states\<close>





text \<open>A Savings account after one deposit of 1500, and a fresh Current account.\<close>

definition example_savings :: account where
  "example_savings =
     snd (deposit (SavingsAccount_init ''0000000001'' ''Alice Smith'') ''2024-01-01 09:00:00'' 1500)"

definition example_current :: account where
  "example_current = CurrentAccount_init ''0000000002'' ''Bob Jones''"

text \<open>
  A bank holding four accounts: a Current account with balance 500, Savings accounts with
  balances 200 and 500, and a deactivated Current account. \<^verbatim>\<open>transfer\<close> reads only the
  dictionary of accounts.
\<close>

definition example_alice :: account where
  "example_alice =
     snd (deposit (CurrentAccount_init ''1000000001'' ''Alice Smith'') ''2024-01-01 09:00:00'' 500)"

definition example_bob :: account where
  "example_bob =
     snd (deposit (SavingsAccount_init ''1000000002'' ''Bob Jones'') ''2024-01-01 09:05:00'' 200)"

definition example_carol :: account where
  "example_carol =
     snd (deposit (SavingsAccount_init ''1000000003'' ''Carol White'') ''2024-01-01 09:10:00'' 500)"

definition example_dan :: account where
  "example_dan = toggle_account_status (CurrentAccount_init ''1000000004'' ''Dan Brown'')"

definition example_bank :: bank where
  "example_bank =
     Bank_init\<lparr>accounts :=
       [''1000000001'' \<mapsto> example_alice, ''1000000002'' \<mapsto> example_bob,
        ''1000000003'' \<mapsto> example_carol, ''1000000004'' \<mapsto> example_dan]\<rparr>"

text \<open>
  A stand-in for the library hash in concrete runs, and a bank with one registered user
  who owns one account.
\<close>

definition example_sha :: "string \<Rightarrow> string" where
  "example_sha password = ''sha256:'' @ password"

definition example_registry :: bank where
  "example_registry =
     \<lparr>accounts = [''1234567890'' \<mapsto> SavingsAccount_init ''1234567890'' ''Alice Smith''],
      users = [''alice_01'' \<mapsto>
                 \<lparr>username = ''alice_01'', password_hash = example_sha ''Str0ng!Pass''\<rparr>],
      account_holders = [''alice_01'' \<mapsto> [''1234567890'']]\<rparr>"

text \<open>
  The invariant of the three dictionaries: \<^verbatim>\<open>_users\<close> and \<^verbatim>\<open>_account_holders\<close> have
  the same keys (only \<^verbatim>\<open>create_user\<close> adds one, to both), and every owned account number
  is a key of \<^verbatim>\<open>_accounts\<close>.
\<close>

definition bank_inv :: "bank \<Rightarrow> bool" where
  "bank_inv b =
     (dom (users b) = dom (account_holders b) \<and>
      (\<forall>uname owned. account_holders b uname = Some owned \<longrightarrow> set owned \<subseteq> dom (accounts b)))"

text \<open>
  The username rule in the words of the specification, for comparison with
  \<open>validate_username\<close>: 4 to 20 characters, each a letter, a digit or an underscore.
\<close>

definition username_pattern_spec :: "string \<Rightarrow> bool" where
  "username_pattern_spec uname =
     (4 \<le> length uname \<and> length uname \<le> 20 \<and>
      list_all (\<lambda>c. is_upper c \<or> is_lower c \<or> is_digit c \<or> c = CHR ''_'') uname)"

section \<open>Properties\<close>

lemmas account_defs =
  withdraw_def SavingsAccount_withdraw_def CurrentAccount_withdraw_def Account_withdraw_def
  deposit_def add_transaction_def calculate_interest_def SavingsAccount_calculate_interest_def
  CurrentAccount_calculate_interest_def SavingsAccount_init_def CurrentAccount_init_def
  Account_init_def MINIMUM_BALANCE_def OVERDRAFT_LIMIT_def INTEREST_RATE_def

subsection \<open>Withdrawal on a Current account\<close>

text \<open>
  Claim C1 says that a Current account may be overdrawn down to -10000, so that
  \<^verbatim>\<open>withdraw(5000)\<close> on a balance of 0 succeeds and leaves -5000. The override passes the
  overdraft check and then calls the base method, whose test \<^verbatim>\<open>amount > self._balance\<close>
  refuses every withdrawal larger than the balance: on a fresh Current account the call
  raises ``Insufficient balance'' and changes nothing.
\<close>

theorem current_withdraw_overdraft_refused:
  "withdraw (CurrentAccount_init num holder) now 5000 =
     (Inl (BankingError ''Insufficient balance''), CurrentAccount_init num holder)"
  by (simp add: account_defs)

subsection \<open>Withdrawal on a Savings account\<close>



subsection \<open>Order of the checks in a withdrawal\<close>

text \<open>
  Claim C5: the check of the variant (minimum balance for Savings, overdraft limit for
  Current) runs before the shared checks and the deduction. When the variant's policy is
  violated its error is raised whatever the sign of the amount and the active flag are, and
  when it is not violated the call is the shared base method.
\<close>

theorem withdraw_policy_first:
  "(account_type a = SAVINGS \<and> balance a - amount < 1000 \<longrightarrow>
      withdraw a now amount =
        (Inl (BankingError ''Must maintain minimum balance of 1000.0''), a)) \<and>
   (account_type a = CURRENT \<and> balance a - amount < - 10000 \<longrightarrow>
      withdraw a now amount =
        (Inl (BankingError ''Exceeds overdraft limit of 10000.0''), a)) \<and>
   (account_type a = SAVINGS \<and> \<not> balance a - amount < 1000 \<longrightarrow>
      withdraw a now amount = Account_withdraw a now amount) \<and>
   (account_type a = CURRENT \<and> \<not> balance a - amount < - 10000 \<longrightarrow>
      withdraw a now amount = Account_withdraw a now amount)"
  by (simp add: withdraw_def SavingsAccount_withdraw_def CurrentAccount_withdraw_def
      MINIMUM_BALANCE_def OVERDRAFT_LIMIT_def)

text \<open>
  A non-positive amount on a fresh Savings account, and an inactive account of either
  variant: the base method alone would raise the shared error, the call raises the
  variant's.
\<close>

theorem withdraw_policy_first_witness:
  "withdraw (SavingsAccount_init ''0000000003'' ''Carol White'') ''2024-01-02 09:00:00'' (- 5) =
     (Inl (BankingError ''Must maintain minimum balance of 1000.0''),
      SavingsAccount_init ''0000000003'' ''Carol White'') \<and>
   Account_withdraw (SavingsAccount_init ''0000000003'' ''Carol White'')
       ''2024-01-02 09:00:00'' (- 5) =
     (Inl (BankingError ''Invalid withdrawal amount''),
      SavingsAccount_init ''0000000003'' ''Carol White'') \<and>
   withdraw (toggle_account_status example_savings) ''2024-01-02 09:00:00'' 600 =
     (Inl (BankingError ''Must maintain minimum balance of 1000.0''),
      toggle_account_status example_savings) \<and>
   withdraw (toggle_account_status example_current) ''2024-01-02 09:00:00'' 20000 =
     (Inl (BankingError ''Exceeds overdraft limit of 10000.0''),
      toggle_account_status example_current) \<and>
   Account_withdraw (toggle_account_status example_current) ''2024-01-02 09:00:00'' 20000 =
     (Inl (BankingError ''Account is inactive''), toggle_account_status example_current) \<and>
   withdraw example_savings ''2024-01-02 09:00:00'' 400 =
     Account_withdraw example_savings ''2024-01-02 09:00:00'' 400 \<and>
   withdraw example_current ''2024-01-02 09:00:00'' 400 =
     Account_withdraw example_current ''2024-01-02 09:00:00'' 400"
  using withdraw_policy_first [of "SavingsAccount_init ''0000000003'' ''Carol White''" "- 5"
      "''2024-01-02 09:00:00''"]
    withdraw_policy_first [of "toggle_account_status example_savings" 600
      "''2024-01-02 09:00:00''"]
    withdraw_policy_first [of "toggle_account_status example_current" 20000
      "''2024-01-02 09:00:00''"]
    withdraw_policy_first [of example_savings 400 "''2024-01-02 09:00:00''"]
    withdraw_policy_first [of example_current 400 "''2024-01-02 09:00:00''"]
  by (simp add: example_savings_def example_current_def toggle_account_status_def account_defs)

subsection \<open>Interest\<close>



subsection \<open>The balance and the transaction log\<close>






subsection \<open>Transfers\<close>

lemma example_bank_accounts:
  "accounts example_bank ''1000000001'' = Some example_alice"
  "accounts example_bank ''1000000002'' = Some example_bob"
  "accounts example_bank ''1000000003'' = Some example_carol"
  "accounts example_bank ''1000000004'' = Some example_dan"
  "accounts example_bank ''9999999999'' = None"
  by (simp_all add: example_bank_def Bank_init_def)

lemma example_accounts:
  "example_alice =
     \<lparr>account_number = ''1000000001'', account_holder = ''Alice Smith'', balance = 500,
      transactions = [\<lparr>tx_timestamp = ''2024-01-01 09:00:00'', tx_type = ''Deposit'',
        tx_amount = 500, tx_balance = 500\<rparr>], account_type = CURRENT, is_active = True\<rparr>"
  "example_bob =
     \<lparr>account_number = ''1000000002'', account_holder = ''Bob Jones'', balance = 200,
      transactions = [\<lparr>tx_timestamp = ''2024-01-01 09:05:00'', tx_type = ''Deposit'',
        tx_amount = 200, tx_balance = 200\<rparr>], account_type = SAVINGS, is_active = True\<rparr>"
  "example_carol =
     \<lparr>account_number = ''1000000003'', account_holder = ''Carol White'', balance = 500,
      transactions = [\<lparr>tx_timestamp = ''2024-01-01 09:10:00'', tx_type = ''Deposit'',
        tx_amount = 500, tx_balance = 500\<rparr>], account_type = SAVINGS, is_active = True\<rparr>"
  "example_dan =
     \<lparr>account_number = ''1000000004'', account_holder = ''Dan Brown'', balance = 0,
      transactions = [], account_type = CURRENT, is_active = False\<rparr>"
  by (simp_all add: example_alice_def example_bob_def example_carol_def example_dan_def
      toggle_account_status_def account_defs)

lemma withdraw_error_unchanged:
  "withdraw a now amount = (Inl e, a') \<Longrightarrow> a' = a"
  by (cases "account_type a")
     (auto simp add: withdraw_def SavingsAccount_withdraw_def CurrentAccount_withdraw_def
        Account_withdraw_def split: if_splits)

lemma withdraw_success:
  "withdraw a now amount = (Inr v, a') \<Longrightarrow>
     v = True \<and> is_active a \<and> 0 < amount \<and> amount \<le> balance a \<and>
     a' = a\<lparr>balance := balance a - amount,
            transactions := transactions a @
              [\<lparr>tx_timestamp = now, tx_type = ''Withdrawal'', tx_amount = - amount,
                tx_balance = balance a - amount\<rparr>]\<rparr>"
  by (cases "account_type a")
     (auto simp add: withdraw_def SavingsAccount_withdraw_def CurrentAccount_withdraw_def
        Account_withdraw_def add_transaction_def split: if_splits)

lemma deposit_success:
  "is_active a \<Longrightarrow> 0 < amount \<Longrightarrow>
   deposit a now amount =
     (Inr True, a\<lparr>balance := balance a + amount,
            transactions := transactions a @
              [\<lparr>tx_timestamp = now, tx_type = ''Deposit'', tx_amount = amount,
                tx_balance = balance a + amount\<rparr>]\<rparr>)"
  by (simp add: deposit_def add_transaction_def)

lemma put_account_same: "accounts b num = Some a \<Longrightarrow> put_account b num a = b"
  by (simp add: put_account_def map_upd_triv)

lemma transfer_success_distinct:
  assumes "0 < amount" "accounts b sn = Some s" "accounts b rn = Some r"
    "is_active s" "is_active r" "sn \<noteq> rn" "withdraw s t1 amount = (Inr v, s')"
  shows "transfer b t1 t2 t3 t4 sn rn amount =
      (Inr True,
       b\<lparr>accounts := (accounts b)
          (sn \<mapsto> s\<lparr>balance := balance s - amount,
                    transactions := transactions s @
                      [\<lparr>tx_timestamp = t1, tx_type = ''Withdrawal'', tx_amount = - amount,
                        tx_balance = balance s - amount\<rparr>,
                       \<lparr>tx_timestamp = t3, tx_type = ''Transfer Sent'', tx_amount = - amount,
                        tx_balance = balance s - amount\<rparr>]\<rparr>,
           rn \<mapsto> r\<lparr>balance := balance r + amount,
                    transactions := transactions r @
                      [\<lparr>tx_timestamp = t2, tx_type = ''Deposit'', tx_amount = amount,
                        tx_balance = balance r + amount\<rparr>,
                       \<lparr>tx_timestamp = t4, tx_type = ''Transfer Received'', tx_amount = amount,
                        tx_balance = balance r + amount\<rparr>]\<rparr>)\<rparr>)"
proof -
  from assms(7) have s': "s' = s\<lparr>balance := balance s - amount,
            transactions := transactions s @
              [\<lparr>tx_timestamp = t1, tx_type = ''Withdrawal'', tx_amount = - amount,
                tx_balance = balance s - amount\<rparr>]\<rparr>"
    using withdraw_success by blast
  have d: "deposit r t2 amount = (Inr True, r\<lparr>balance := balance r + amount,
            transactions := transactions r @
              [\<lparr>tx_timestamp = t2, tx_type = ''Deposit'', tx_amount = amount,
                tx_balance = balance r + amount\<rparr>]\<rparr>)"
    using assms by (simp add: deposit_success)
  show ?thesis
    using assms d
    by (simp add: transfer_def get_account_def put_account_def add_transaction_def s' Let_def
        fun_upd_twist)
qed

lemma transfer_success_same:
  assumes "0 < amount" "accounts b sn = Some s" "is_active s"
    "withdraw s t1 amount = (Inr v, s')"
  shows "transfer b t1 t2 t3 t4 sn sn amount =
      (Inr True,
       b\<lparr>accounts := (accounts b)
          (sn \<mapsto> s\<lparr>balance := balance s - amount + amount,
                    transactions := transactions s @
                      [\<lparr>tx_timestamp = t1, tx_type = ''Withdrawal'', tx_amount = - amount,
                        tx_balance = balance s - amount\<rparr>,
                       \<lparr>tx_timestamp = t2, tx_type = ''Deposit'', tx_amount = amount,
                        tx_balance = balance s - amount + amount\<rparr>,
                       \<lparr>tx_timestamp = t3, tx_type = ''Transfer Sent'', tx_amount = - amount,
                        tx_balance = balance s - amount + amount\<rparr>,
                       \<lparr>tx_timestamp = t4, tx_type = ''Transfer Received'', tx_amount = amount,
                        tx_balance = balance s - amount + amount\<rparr>]\<rparr>)\<rparr>)"
proof -
  from assms(4) have s': "s' = s\<lparr>balance := balance s - amount,
            transactions := transactions s @
              [\<lparr>tx_timestamp = t1, tx_type = ''Withdrawal'', tx_amount = - amount,
                tx_balance = balance s - amount\<rparr>]\<rparr>"
    using withdraw_success by blast
  have d: "deposit s' t2 amount = (Inr True, s'\<lparr>balance := balance s' + amount,
            transactions := transactions s' @
              [\<lparr>tx_timestamp = t2, tx_type = ''Deposit'', tx_amount = amount,
                tx_balance = balance s' + amount\<rparr>]\<rparr>)"
    using assms by (intro deposit_success) (simp_all add: s')
  show ?thesis
    using assms d
    by (simp add: transfer_def get_account_def put_account_def add_transaction_def s' Let_def)
qed

lemma transfer_withdraw_refused:
  assumes "0 < amount" "accounts b sn = Some s" "accounts b rn = Some r"
    "is_active s" "is_active r" "withdraw s t1 amount = (Inl e, s')"
  shows "transfer b t1 t2 t3 t4 sn rn amount = (Inl e, b)"
proof -
  from assms(6) have "s' = s" by (rule withdraw_error_unchanged)
  with assms show ?thesis
    by (simp add: transfer_def get_account_def put_account_same)
qed

lemma current_withdraw_within_balance:
  assumes "account_type s = CURRENT" "is_active s" "0 < amount" "amount \<le> balance s"
  shows "\<exists>s'. withdraw s t1 amount = (Inr True, s')"
  using assms
  by (simp add: withdraw_def CurrentAccount_withdraw_def Account_withdraw_def OVERDRAFT_LIMIT_def)

text \<open>
  Claim C3, as the code has it. \<^verbatim>\<open>transfer\<close> raises ``Invalid transfer amount'' when the
  amount is not positive; otherwise ``Invalid account number(s)'' when either number is
  missing; otherwise ``One or both accounts are inactive'' when either account is inactive;
  otherwise it calls \<^verbatim>\<open>withdraw\<close> on the sender, and when that raises the transfer
  raises the same error and the bank is unchanged. When the withdrawal returns, the amount is deposited into the
  receiver, the sender gains a Withdrawal and a Transfer Sent record and the receiver a
  Deposit and a Transfer Received record; when both numbers are the same account, all four
  records go to it. So a transfer of 100 from an active Current account with balance 500 to
  another active account with balance 200 leaves 400 and 300.
\<close>

theorem transfer_cases:
  "(amount \<le> 0 \<longrightarrow>
      transfer b t1 t2 t3 t4 sn rn amount = (Inl (BankingError ''Invalid transfer amount''), b)) \<and>
   (0 < amount \<and> (accounts b sn = None \<or> accounts b rn = None) \<longrightarrow>
      transfer b t1 t2 t3 t4 sn rn amount =
        (Inl (BankingError ''Invalid account number(s)''), b)) \<and>
   (0 < amount \<and> accounts b sn = Some s \<and> accounts b rn = Some r \<and>
    (\<not> is_active s \<or> \<not> is_active r) \<longrightarrow>
      transfer b t1 t2 t3 t4 sn rn amount =
        (Inl (BankingError ''One or both accounts are inactive''), b)) \<and>
   (0 < amount \<and> accounts b sn = Some s \<and> accounts b rn = Some r \<and>
    is_active s \<and> is_active r \<and> withdraw s t1 amount = (Inl e, s') \<longrightarrow>
      transfer b t1 t2 t3 t4 sn rn amount = (Inl e, b)) \<and>
   (0 < amount \<and> accounts b sn = Some s \<and> accounts b rn = Some r \<and>
    is_active s \<and> is_active r \<and> sn \<noteq> rn \<and> withdraw s t1 amount = (Inr v, s') \<longrightarrow>
      transfer b t1 t2 t3 t4 sn rn amount =
        (Inr True,
         b\<lparr>accounts := (accounts b)
            (sn \<mapsto> s\<lparr>balance := balance s - amount,
                      transactions := transactions s @
                        [\<lparr>tx_timestamp = t1, tx_type = ''Withdrawal'', tx_amount = - amount,
                          tx_balance = balance s - amount\<rparr>,
                         \<lparr>tx_timestamp = t3, tx_type = ''Transfer Sent'', tx_amount = - amount,
                          tx_balance = balance s - amount\<rparr>]\<rparr>,
             rn \<mapsto> r\<lparr>balance := balance r + amount,
                      transactions := transactions r @
                        [\<lparr>tx_timestamp = t2, tx_type = ''Deposit'', tx_amount = amount,
                          tx_balance = balance r + amount\<rparr>,
                         \<lparr>tx_timestamp = t4, tx_type = ''Transfer Received'',
                          tx_amount = amount, tx_balance = balance r + amount\<rparr>]\<rparr>)\<rparr>)) \<and>
   (0 < amount \<and> accounts b sn = Some s \<and> is_active s \<and>
    withdraw s t1 amount = (Inr v, s') \<longrightarrow>
      transfer b t1 t2 t3 t4 sn sn amount =
        (Inr True,
         b\<lparr>accounts := (accounts b)
            (sn \<mapsto> s\<lparr>balance := balance s - amount + amount,
                      transactions := transactions s @
                        [\<lparr>tx_timestamp = t1, tx_type = ''Withdrawal'', tx_amount = - amount,
                          tx_balance = balance s - amount\<rparr>,
                         \<lparr>tx_timestamp = t2, tx_type = ''Deposit'', tx_amount = amount,
                          tx_balance = balance s - amount + amount\<rparr>,
                         \<lparr>tx_timestamp = t3, tx_type = ''Transfer Sent'', tx_amount = - amount,
                          tx_balance = balance s - amount + amount\<rparr>,
                         \<lparr>tx_timestamp = t4, tx_type = ''Transfer Received'',
                          tx_amount = amount, tx_balance = balance s - amount + amount\<rparr>]\<rparr>)\<rparr>)) \<and>
   (accounts b sn = Some s \<and> accounts b rn = Some r \<and> is_active s \<and> is_active r \<and>
    sn \<noteq> rn \<and> account_type s = CURRENT \<and> balance s = 500 \<and> balance r = 200 \<longrightarrow>
      transfer b t1 t2 t3 t4 sn rn 100 =
        (Inr True,
         b\<lparr>accounts := (accounts b)
            (sn \<mapsto> s\<lparr>balance := 400,
                      transactions := transactions s @
                        [\<lparr>tx_timestamp = t1, tx_type = ''Withdrawal'', tx_amount = - 100,
                          tx_balance = 400\<rparr>,
                         \<lparr>tx_timestamp = t3, tx_type = ''Transfer Sent'', tx_amount = - 100,
                          tx_balance = 400\<rparr>]\<rparr>,
             rn \<mapsto> r\<lparr>balance := 300,
                      transactions := transactions r @
                        [\<lparr>tx_timestamp = t2, tx_type = ''Deposit'', tx_amount = 100,
                          tx_balance = 300\<rparr>,
                         \<lparr>tx_timestamp = t4, tx_type = ''Transfer Received'',
                          tx_amount = 100, tx_balance = 300\<rparr>]\<rparr>)\<rparr>))"
proof (intro conjI impI)
  assume "amount \<le> 0"
  then show "transfer b t1 t2 t3 t4 sn rn amount =
      (Inl (BankingError ''Invalid transfer amount''), b)"
    by (simp add: transfer_def)
next
  assume "0 < amount \<and> (accounts b sn = None \<or> accounts b rn = None)"
  then show "transfer b t1 t2 t3 t4 sn rn amount =
      (Inl (BankingError ''Invalid account number(s)''), b)"
    by (auto simp add: transfer_def get_account_def split: option.splits)
next
  assume "0 < amount \<and> accounts b sn = Some s \<and> accounts b rn = Some r \<and>
    (\<not> is_active s \<or> \<not> is_active r)"
  then show "transfer b t1 t2 t3 t4 sn rn amount =
      (Inl (BankingError ''One or both accounts are inactive''), b)"
    by (auto simp add: transfer_def get_account_def)
next
  assume "0 < amount \<and> accounts b sn = Some s \<and> accounts b rn = Some r \<and>
    is_active s \<and> is_active r \<and> withdraw s t1 amount = (Inl e, s')"
  then show "transfer b t1 t2 t3 t4 sn rn amount = (Inl e, b)"
    by (blast intro: transfer_withdraw_refused)
next
  assume "0 < amount \<and> accounts b sn = Some s \<and> accounts b rn = Some r \<and>
    is_active s \<and> is_active r \<and> sn \<noteq> rn \<and> withdraw s t1 amount = (Inr v, s')"
  then show "transfer b t1 t2 t3 t4 sn rn amount =
        (Inr True,
         b\<lparr>accounts := (accounts b)
            (sn \<mapsto> s\<lparr>balance := balance s - amount,
                      transactions := transactions s @
                        [\<lparr>tx_timestamp = t1, tx_type = ''Withdrawal'', tx_amount = - amount,
                          tx_balance = balance s - amount\<rparr>,
                         \<lparr>tx_timestamp = t3, tx_type = ''Transfer Sent'', tx_amount = - amount,
                          tx_balance = balance s - amount\<rparr>]\<rparr>,
             rn \<mapsto> r\<lparr>balance := balance r + amount,
                      transactions := transactions r @
                        [\<lparr>tx_timestamp = t2, tx_type = ''Deposit'', tx_amount = amount,
                          tx_balance = balance r + amount\<rparr>,
                         \<lparr>tx_timestamp = t4, tx_type = ''Transfer Received'',
                          tx_amount = amount, tx_balance = balance r + amount\<rparr>]\<rparr>)\<rparr>)"
    by (blast intro: transfer_success_distinct)
next
  assume "0 < amount \<and> accounts b sn = Some s \<and> is_active s \<and>
    withdraw s t1 amount = (Inr v, s')"
  then show "transfer b t1 t2 t3 t4 sn sn amount =
        (Inr True,
         b\<lparr>accounts := (accounts b)
            (sn \<mapsto> s\<lparr>balance := balance s - amount + amount,
                      transactions := transactions s @
                        [\<lparr>tx_timestamp = t1, tx_type = ''Withdrawal'', tx_amount = - amount,
                          tx_balance = balance s - amount\<rparr>,
                         \<lparr>tx_timestamp = t2, tx_type = ''Deposit'', tx_amount = amount,
                          tx_balance = balance s - amount + amount\<rparr>,
                         \<lparr>tx_timestamp = t3, tx_type = ''Transfer Sent'', tx_amount = - amount,
                          tx_balance = balance s - amount + amount\<rparr>,
                         \<lparr>tx_timestamp = t4, tx_type = ''Transfer Received'',
                          tx_amount = amount, tx_balance = balance s - amount + amount\<rparr>]\<rparr>)\<rparr>)"
    by (blast intro: transfer_success_same)
next
  assume h: "accounts b sn = Some s \<and> accounts b rn = Some r \<and> is_active s \<and> is_active r \<and>
    sn \<noteq> rn \<and> account_type s = CURRENT \<and> balance s = 500 \<and> balance r = 200"
  then obtain s' where "withdraw s t1 100 = (Inr True, s')"
    using current_withdraw_within_balance [of s 100 t1] by auto
  with h have "transfer b t1 t2 t3 t4 sn rn 100 =
      (Inr True,
       b\<lparr>accounts := (accounts b)
          (sn \<mapsto> s\<lparr>balance := balance s - 100,
                    transactions := transactions s @
                      [\<lparr>tx_timestamp = t1, tx_type = ''Withdrawal'', tx_amount = - 100,
                        tx_balance = balance s - 100\<rparr>,
                       \<lparr>tx_timestamp = t3, tx_type = ''Transfer Sent'', tx_amount = - 100,
                        tx_balance = balance s - 100\<rparr>]\<rparr>,
           rn \<mapsto> r\<lparr>balance := balance r + 100,
                    transactions := transactions r @
                      [\<lparr>tx_timestamp = t2, tx_type = ''Deposit'', tx_amount = 100,
                        tx_balance = balance r + 100\<rparr>,
                       \<lparr>tx_timestamp = t4, tx_type = ''Transfer Received'', tx_amount = 100,
                        tx_balance = balance r + 100\<rparr>]\<rparr>)\<rparr>)"
    by (intro transfer_success_distinct [where v = True and s' = s']) simp_all
  with h show "transfer b t1 t2 t3 t4 sn rn 100 =
        (Inr True,
         b\<lparr>accounts := (accounts b)
            (sn \<mapsto> s\<lparr>balance := 400,
                      transactions := transactions s @
                        [\<lparr>tx_timestamp = t1, tx_type = ''Withdrawal'', tx_amount = - 100,
                          tx_balance = 400\<rparr>,
                         \<lparr>tx_timestamp = t3, tx_type = ''Transfer Sent'', tx_amount = - 100,
                          tx_balance = 400\<rparr>]\<rparr>,
             rn \<mapsto> r\<lparr>balance := 300,
                      transactions := transactions r @
                        [\<lparr>tx_timestamp = t2, tx_type = ''Deposit'', tx_amount = 100,
                          tx_balance = 300\<rparr>,
                         \<lparr>tx_timestamp = t4, tx_type = ''Transfer Received'',
                          tx_amount = 100, tx_balance = 300\<rparr>]\<rparr>)\<rparr>)"
    by simp
qed

text \<open>
  The scenario of the claim fails for a Savings sender: 500 less 100 is below the minimum
  balance, so the transfer raises and changes nothing.
\<close>

theorem transfer_savings_counterexample:
  "map_option balance (accounts example_bank ''1000000003'') = Some 500 \<and>
   map_option balance (accounts example_bank ''1000000002'') = Some 200 \<and>
   transfer example_bank ''2024-01-05 10:00:00'' ''2024-01-05 10:00:01''
       ''2024-01-05 10:00:02'' ''2024-01-05 10:00:03'' ''1000000003'' ''1000000002'' 100 =
     (Inl (BankingError ''Must maintain minimum balance of 1000.0''), example_bank)"
proof -
  have "withdraw example_carol ''2024-01-05 10:00:00'' 100 =
      (Inl (BankingError ''Must maintain minimum balance of 1000.0''), example_carol)"
    by (simp add: example_accounts withdraw_def SavingsAccount_withdraw_def MINIMUM_BALANCE_def)
  then show ?thesis
    by (simp add: transfer_def get_account_def put_account_same example_bank_accounts)
       (simp add: example_accounts)
qed

theorem transfer_cases_witness:
  "transfer example_bank ''2024-01-05 10:00:00'' ''2024-01-05 10:00:01''
       ''2024-01-05 10:00:02'' ''2024-01-05 10:00:03'' ''1000000001'' ''1000000002'' 0 =
     (Inl (BankingError ''Invalid transfer amount''), example_bank) \<and>
   transfer example_bank ''2024-01-05 10:00:00'' ''2024-01-05 10:00:01''
       ''2024-01-05 10:00:02'' ''2024-01-05 10:00:03'' ''9999999999'' ''1000000002'' 100 =
     (Inl (BankingError ''Invalid account number(s)''), example_bank) \<and>
   transfer example_bank ''2024-01-05 10:00:00'' ''2024-01-05 10:00:01''
       ''2024-01-05 10:00:02'' ''2024-01-05 10:00:03'' ''1000000001'' ''1000000004'' 100 =
     (Inl (BankingError ''One or both accounts are inactive''), example_bank) \<and>
   transfer example_bank ''2024-01-05 10:00:00'' ''2024-01-05 10:00:01''
       ''2024-01-05 10:00:02'' ''2024-01-05 10:00:03'' ''1000000002'' ''1000000001'' 100 =
     (Inl (BankingError ''Must maintain minimum balance of 1000.0''), example_bank) \<and>
   fst (transfer example_bank ''2024-01-05 10:00:00'' ''2024-01-05 10:00:01''
       ''2024-01-05 10:00:02'' ''2024-01-05 10:00:03'' ''1000000001'' ''1000000002'' 100) =
     Inr True \<and>
   map_option balance (accounts (snd (transfer example_bank ''2024-01-05 10:00:00''
       ''2024-01-05 10:00:01'' ''2024-01-05 10:00:02'' ''2024-01-05 10:00:03''
       ''1000000001'' ''1000000002'' 100)) ''1000000001'') = Some 400 \<and>
   map_option balance (accounts (snd (transfer example_bank ''2024-01-05 10:00:00''
       ''2024-01-05 10:00:01'' ''2024-01-05 10:00:02'' ''2024-01-05 10:00:03''
       ''1000000001'' ''1000000002'' 100)) ''1000000002'') = Some 300 \<and>
   map_option (map tx_type \<circ> transactions) (accounts (snd (transfer example_bank
       ''2024-01-05 10:00:00'' ''2024-01-05 10:00:01'' ''2024-01-05 10:00:02''
       ''2024-01-05 10:00:03'' ''1000000001'' ''1000000002'' 100)) ''1000000001'') =
     Some [''Deposit'', ''Withdrawal'', ''Transfer Sent''] \<and>
   map_option (map tx_type \<circ> transactions) (accounts (snd (transfer example_bank
       ''2024-01-05 10:00:00'' ''2024-01-05 10:00:01'' ''2024-01-05 10:00:02''
       ''2024-01-05 10:00:03'' ''1000000001'' ''1000000002'' 100)) ''1000000002'') =
     Some [''Deposit'', ''Deposit'', ''Transfer Received''] \<and>
   map_option balance (accounts (snd (transfer example_bank ''2024-01-05 10:00:00''
       ''2024-01-05 10:00:01'' ''2024-01-05 10:00:02'' ''2024-01-05 10:00:03''
       ''1000000001'' ''1000000001'' 100)) ''1000000001'') = Some 500"
proof -
  have w1: "withdraw example_alice ''2024-01-05 10:00:00'' 100 =
      (Inr True, snd (withdraw example_alice ''2024-01-05 10:00:00'' 100))"
    by (simp add: example_accounts account_defs)
  have w2: "withdraw example_bob ''2024-01-05 10:00:00'' 100 =
      (Inl (BankingError ''Must maintain minimum balance of 1000.0''), example_bob)"
    by (simp add: example_accounts account_defs)
  have p: "is_active example_alice" "is_active example_bob" "\<not> is_active example_dan"
    "account_type example_alice = CURRENT" "balance example_alice = 500"
    "balance example_bob = 200"
    by (simp_all add: example_accounts)
  have c1: "transfer example_bank ''2024-01-05 10:00:00'' ''2024-01-05 10:00:01''
       ''2024-01-05 10:00:02'' ''2024-01-05 10:00:03'' ''1000000001'' ''1000000002'' 0 =
     (Inl (BankingError ''Invalid transfer amount''), example_bank)"
    using transfer_cases [where amount = 0 and b = example_bank and sn = "''1000000001''"
        and rn = "''1000000002''" and ?t1.0 = "''2024-01-05 10:00:00''"
        and ?t2.0 = "''2024-01-05 10:00:01''" and ?t3.0 = "''2024-01-05 10:00:02''"
        and ?t4.0 = "''2024-01-05 10:00:03''"]
    by simp
  have c2: "transfer example_bank ''2024-01-05 10:00:00'' ''2024-01-05 10:00:01''
       ''2024-01-05 10:00:02'' ''2024-01-05 10:00:03'' ''9999999999'' ''1000000002'' 100 =
     (Inl (BankingError ''Invalid account number(s)''), example_bank)"
    using transfer_cases [where amount = 100 and b = example_bank and sn = "''9999999999''"
        and rn = "''1000000002''" and ?t1.0 = "''2024-01-05 10:00:00''"
        and ?t2.0 = "''2024-01-05 10:00:01''" and ?t3.0 = "''2024-01-05 10:00:02''"
        and ?t4.0 = "''2024-01-05 10:00:03''"]
    by (simp add: example_bank_accounts)
  have c3: "transfer example_bank ''2024-01-05 10:00:00'' ''2024-01-05 10:00:01''
       ''2024-01-05 10:00:02'' ''2024-01-05 10:00:03'' ''1000000001'' ''1000000004'' 100 =
     (Inl (BankingError ''One or both accounts are inactive''), example_bank)"
    using transfer_cases [where amount = 100 and b = example_bank and sn = "''1000000001''"
        and rn = "''1000000004''" and ?t1.0 = "''2024-01-05 10:00:00''"
        and ?t2.0 = "''2024-01-05 10:00:01''" and ?t3.0 = "''2024-01-05 10:00:02''"
        and ?t4.0 = "''2024-01-05 10:00:03''" and s = example_alice and r = example_dan]
    by (simp add: example_bank_accounts p)
  have c4: "transfer example_bank ''2024-01-05 10:00:00'' ''2024-01-05 10:00:01''
       ''2024-01-05 10:00:02'' ''2024-01-05 10:00:03'' ''1000000002'' ''1000000001'' 100 =
     (Inl (BankingError ''Must maintain minimum balance of 1000.0''), example_bank)"
    using transfer_cases [where amount = 100 and b = example_bank and sn = "''1000000002''"
        and rn = "''1000000001''" and ?t1.0 = "''2024-01-05 10:00:00''"
        and ?t2.0 = "''2024-01-05 10:00:01''" and ?t3.0 = "''2024-01-05 10:00:02''"
        and ?t4.0 = "''2024-01-05 10:00:03''" and s = example_bob and r = example_alice
        and e = "BankingError ''Must maintain minimum balance of 1000.0''"
        and s' = example_bob]
    by (simp add: example_bank_accounts p w2)
  have c5: "transfer example_bank ''2024-01-05 10:00:00'' ''2024-01-05 10:00:01''
       ''2024-01-05 10:00:02'' ''2024-01-05 10:00:03'' ''1000000001'' ''1000000002'' 100 =
     (Inr True,
      example_bank\<lparr>accounts := (accounts example_bank)
        (''1000000001'' \<mapsto> example_alice\<lparr>balance := 400,
            transactions := transactions example_alice @
              [\<lparr>tx_timestamp = ''2024-01-05 10:00:00'', tx_type = ''Withdrawal'',
                tx_amount = - 100, tx_balance = 400\<rparr>,
               \<lparr>tx_timestamp = ''2024-01-05 10:00:02'', tx_type = ''Transfer Sent'',
                tx_amount = - 100, tx_balance = 400\<rparr>]\<rparr>,
         ''1000000002'' \<mapsto> example_bob\<lparr>balance := 300,
            transactions := transactions example_bob @
              [\<lparr>tx_timestamp = ''2024-01-05 10:00:01'', tx_type = ''Deposit'',
                tx_amount = 100, tx_balance = 300\<rparr>,
               \<lparr>tx_timestamp = ''2024-01-05 10:00:03'', tx_type = ''Transfer Received'',
                tx_amount = 100, tx_balance = 300\<rparr>]\<rparr>)\<rparr>)"
    using transfer_cases [where b = example_bank and sn = "''1000000001''"
        and rn = "''1000000002''" and ?t1.0 = "''2024-01-05 10:00:00''"
        and ?t2.0 = "''2024-01-05 10:00:01''" and ?t3.0 = "''2024-01-05 10:00:02''"
        and ?t4.0 = "''2024-01-05 10:00:03''" and s = example_alice and r = example_bob]
    by (simp add: example_bank_accounts p)
  have c6: "transfer example_bank ''2024-01-05 10:00:00'' ''2024-01-05 10:00:01''
       ''2024-01-05 10:00:02'' ''2024-01-05 10:00:03'' ''1000000001'' ''1000000001'' 100 =
     (Inr True,
      example_bank\<lparr>accounts := (accounts example_bank)
        (''1000000001'' \<mapsto> example_alice\<lparr>balance := 500,
            transactions := transactions example_alice @
              [\<lparr>tx_timestamp = ''2024-01-05 10:00:00'', tx_type = ''Withdrawal'',
                tx_amount = - 100, tx_balance = 400\<rparr>,
               \<lparr>tx_timestamp = ''2024-01-05 10:00:01'', tx_type = ''Deposit'',
                tx_amount = 100, tx_balance = 500\<rparr>,
               \<lparr>tx_timestamp = ''2024-01-05 10:00:02'', tx_type = ''Transfer Sent'',
                tx_amount = - 100, tx_balance = 500\<rparr>,
               \<lparr>tx_timestamp = ''2024-01-05 10:00:03'', tx_type = ''Transfer Received'',
                tx_amount = 100, tx_balance = 500\<rparr>]\<rparr>)\<rparr>)"
    using transfer_cases [where amount = 100 and b = example_bank and sn = "''1000000001''"
        and ?t1.0 = "''2024-01-05 10:00:00''"
        and ?t2.0 = "''2024-01-05 10:00:01''" and ?t3.0 = "''2024-01-05 10:00:02''"
        and ?t4.0 = "''2024-01-05 10:00:03''" and s = example_alice and v = True
        and s' = "snd (withdraw example_alice ''2024-01-05 10:00:00'' 100)"] w1
    by (simp add: example_bank_accounts p)
  show ?thesis
    unfolding c1 c2 c3 c4 c5 c6 by (simp add: example_accounts)
qed

text \<open>
  Claim C9: whenever \<^verbatim>\<open>transfer\<close> raises, the bank is exactly as before the call, so the
  balances and transaction logs of both accounts are unchanged. Every check that can fail
  comes before the first mutation: once the sender's withdrawal has returned, the amount is
  positive and the receiver is active (also when it is the sender itself), so the deposit
  cannot raise.
\<close>

theorem transfer_failure_unchanged:
  assumes "fst (transfer b t1 t2 t3 t4 sender_number receiver_number amount) = Inl e"
  shows "snd (transfer b t1 t2 t3 t4 sender_number receiver_number amount) = b"
proof (cases "amount \<le> 0")
  case True
  then show ?thesis by (simp add: transfer_def)
next
  case pos: False
  show ?thesis
  proof (cases "accounts b sender_number")
    case None
    with pos show ?thesis by (simp add: transfer_def get_account_def)
  next
    case (Some sender)
    note s = this
    show ?thesis
    proof (cases "accounts b receiver_number")
      case None
      with pos s show ?thesis by (simp add: transfer_def get_account_def)
    next
      case (Some receiver)
      note r = this
      show ?thesis
      proof (cases "is_active sender \<and> is_active receiver")
        case False
        with pos s r show ?thesis by (auto simp add: transfer_def get_account_def)
      next
        case act: True
        obtain res sender1 where w: "withdraw sender t1 amount = (res, sender1)"
          by (cases "withdraw sender t1 amount")
        show ?thesis
        proof (cases res)
          case (Inl e')
          with w have "sender1 = sender" by (simp add: withdraw_error_unchanged)
          with pos s r act w Inl show ?thesis
            by (simp add: transfer_def get_account_def put_account_same)
        next
          case (Inr v)
          with w have ws: "is_active sender1"
            using withdraw_success [of sender t1 amount v sender1] by simp
          have "is_active (if receiver_number = sender_number then sender1 else receiver)"
            using ws act by simp
          then have d: "deposit (if receiver_number = sender_number then sender1 else receiver) t2 amount =
            (Inr True, (if receiver_number = sender_number then sender1 else receiver)\<lparr>balance := balance (if receiver_number = sender_number then sender1 else receiver) + amount,
            transactions := transactions (if receiver_number = sender_number then sender1 else receiver) @
              [\<lparr>tx_timestamp = t2, tx_type = ''Deposit'', tx_amount = amount,
                tx_balance = balance (if receiver_number = sender_number then sender1 else receiver) + amount\<rparr>]\<rparr>)"
            using pos by (intro deposit_success) auto
          have "fst (transfer b t1 t2 t3 t4 sender_number receiver_number amount) = Inr True"
            using pos s r act w Inr d
            by (simp add: transfer_def get_account_def Let_def del: deposit_def)
          with assms show ?thesis by simp
        qed
      qed
    qed
  qed
qed

theorem transfer_failure_unchanged_witness:
  "fst (transfer example_bank ''2024-01-05 10:00:00'' ''2024-01-05 10:00:01''
       ''2024-01-05 10:00:02'' ''2024-01-05 10:00:03'' ''1000000003'' ''1000000001'' 100) =
     Inl (BankingError ''Must maintain minimum balance of 1000.0'') \<and>
   snd (transfer example_bank ''2024-01-05 10:00:00'' ''2024-01-05 10:00:01''
       ''2024-01-05 10:00:02'' ''2024-01-05 10:00:03'' ''1000000003'' ''1000000001'' 100) =
     example_bank"
proof -
  have "withdraw example_carol ''2024-01-05 10:00:00'' 100 =
      (Inl (BankingError ''Must maintain minimum balance of 1000.0''), example_carol)"
    by (simp add: example_accounts withdraw_def SavingsAccount_withdraw_def MINIMUM_BALANCE_def)
  then have f: "fst (transfer example_bank ''2024-01-05 10:00:00'' ''2024-01-05 10:00:01''
       ''2024-01-05 10:00:02'' ''2024-01-05 10:00:03'' ''1000000003'' ''1000000001'' 100) =
     Inl (BankingError ''Must maintain minimum balance of 1000.0'')"
    by (simp add: transfer_def get_account_def example_bank_accounts)
       (simp add: example_accounts)
  from transfer_failure_unchanged [OF f] f show ?thesis by simp
qed

subsection \<open>Users\<close>

lemma match_class_repeat_iff:
  "match_class_repeat cls lo hi s =
     ((lo \<le> length s \<and> length s \<le> hi \<and> list_all cls s) \<or>
      (\<exists>v. s = v @ [CHR 0x0A] \<and> lo \<le> length v \<and> length v \<le> hi \<and> list_all cls v))"
proof
  assume "match_class_repeat cls lo hi s"
  then obtain k where k: "lo \<le> k" "k \<le> hi" "k \<le> length s" "list_all cls (take k s)"
    "at_dollar (drop k s)"
    by (auto simp add: match_class_repeat_def list_ex_iff)
  from k(5) consider "drop k s = []" | "drop k s = [CHR 0x0A]"
    by (auto simp add: at_dollar_def)
  then show "(lo \<le> length s \<and> length s \<le> hi \<and> list_all cls s) \<or>
      (\<exists>v. s = v @ [CHR 0x0A] \<and> lo \<le> length v \<and> length v \<le> hi \<and> list_all cls v)"
  proof cases
    case 1
    with k have "k = length s" by simp
    with k show ?thesis by simp
  next
    case 2
    then have "s = take k s @ [CHR 0x0A]"
      by (metis append_take_drop_id)
    moreover have "length (take k s) = k" using k by simp
    ultimately show ?thesis using k by metis
  qed
next
  assume "(lo \<le> length s \<and> length s \<le> hi \<and> list_all cls s) \<or>
      (\<exists>v. s = v @ [CHR 0x0A] \<and> lo \<le> length v \<and> length v \<le> hi \<and> list_all cls v)"
  then show "match_class_repeat cls lo hi s"
  proof
    assume "lo \<le> length s \<and> length s \<le> hi \<and> list_all cls s"
    then show ?thesis
      by (auto simp add: match_class_repeat_def list_ex_iff at_dollar_def
          intro!: bexI [where x = "length s"])
  next
    assume "\<exists>v. s = v @ [CHR 0x0A] \<and> lo \<le> length v \<and> length v \<le> hi \<and> list_all cls v"
    then obtain v where "s = v @ [CHR 0x0A]" "lo \<le> length v" "length v \<le> hi" "list_all cls v"
      by blast
    then show ?thesis
      by (auto simp add: match_class_repeat_def list_ex_iff at_dollar_def
          intro!: bexI [where x = "length v"])
  qed
qed

lemma validate_username_iff:
  "validate_username uname =
     (username_pattern_spec uname \<or> (\<exists>v. uname = v @ [CHR 0x0A] \<and> username_pattern_spec v))"
  by (simp add: validate_username_def match_class_repeat_iff username_pattern_spec_def)

lemma validate_password_iff:
  "validate_password password =
     (8 \<le> length password \<and> list_ex is_upper password \<and> list_ex is_lower password \<and>
      list_ex is_digit password \<and> list_ex is_special password)"
  by (auto simp add: validate_password_def)

lemma create_user_raises_iff:
  "(\<exists>e. fst (create_user sha b uname password) = Inl e) =
     (\<not> validate_username uname \<or> \<not> validate_password password \<or> uname \<in> dom (users b))"
  by (auto simp add: create_user_def)

lemma create_user_success:
  "validate_username uname \<Longrightarrow> validate_password password \<Longrightarrow> uname \<notin> dom (users b) \<Longrightarrow>
   create_user sha b uname password =
     (Inr True,
      b\<lparr>users := (users b)(uname \<mapsto> \<lparr>username = uname, password_hash = sha password\<rparr>),
        account_holders := (account_holders b)(uname \<mapsto> [])\<rparr>)"
  by (simp add: create_user_def User_init_def hash_password_def)

lemma valid_alice: "validate_username ''alice_01''" "validate_password ''Str0ng!Pass''"
  by code_simp+

lemma valid_newline:
  "validate_username (''abcd'' @ [CHR 0x0A])" "\<not> username_pattern_spec (''abcd'' @ [CHR 0x0A])"
  by code_simp+

text \<open>
  Claim C7 says that \<^verbatim>\<open>create_user\<close> raises exactly when the username is not 4 to 20
  letters, digits and underscores, the password is weak, or the username is taken. The
  pattern \<^verbatim>\<open>^[A-Za-z0-9_]{4,20}$\<close> ends in \<^verbatim>\<open>$\<close>, which also matches before a final
  newline (\<open>validate_username_iff\<close>): the five-character username \<^verbatim>\<open>abcd\n\<close> is not
  of that form, and \<^verbatim>\<open>create_user\<close> registers it on an empty bank.
\<close>

theorem create_user_trailing_newline:
  "\<not> username_pattern_spec (''abcd'' @ [CHR 0x0A]) \<and>
   create_user sha Bank_init (''abcd'' @ [CHR 0x0A]) ''Str0ng!Pass'' =
     (Inr True,
      Bank_init\<lparr>users := [''abcd'' @ [CHR 0x0A] \<mapsto>
          \<lparr>username = ''abcd'' @ [CHR 0x0A], password_hash = sha ''Str0ng!Pass''\<rparr>],
        account_holders := [''abcd'' @ [CHR 0x0A] \<mapsto> []]\<rparr>)"
  using valid_newline valid_alice(2)
  by (simp add: create_user_def User_init_def hash_password_def Bank_init_def)



subsection \<open>Opening an account for an unknown username\<close>

lemma generate_account_number_fresh:
  "generate_account_number b rng = Some num \<Longrightarrow> num \<notin> dom (accounts b)"
proof (induction b rng rule: generate_account_number.induct)
  case (1 b rng)
  then show ?case
    by (subst (asm) (2) generate_account_number.simps) (auto split: if_splits)
qed

lemma generate_account_number_returns:
  "10 * Suc k \<le> length rng \<Longrightarrow>
   map str_digit (take 10 (drop (10 * k) rng)) \<notin> dom (accounts b) \<Longrightarrow>
   \<exists>num. generate_account_number b rng = Some num"
proof (induction k arbitrary: rng)
  case 0
  then show ?case by (subst generate_account_number.simps) simp
next
  case (Suc k)
  have "10 * Suc k \<le> length (drop 10 rng)" using Suc.prems(1) by simp
  moreover have "map str_digit (take 10 (drop (10 * k) (drop 10 rng))) \<notin> dom (accounts b)"
    using Suc.prems(2) by (simp add: add.commute)
  ultimately obtain num where "generate_account_number b (drop 10 rng) = Some num"
    using Suc.IH by blast
  moreover have "\<not> length rng < 10" using Suc.prems(1) by simp
  ultimately show ?case by (subst generate_account_number.simps) simp
qed

lemma bank_inv_init: "bank_inv Bank_init"
  by (simp add: bank_inv_def Bank_init_def)

lemma bank_inv_create_user:
  "bank_inv b \<Longrightarrow> bank_inv (snd (create_user sha b uname password))"
  by (auto simp add: bank_inv_def create_user_def)

lemma bank_inv_open_account:
  "bank_inv b \<Longrightarrow> open_account b rng uname holder ty = Some (res, b') \<Longrightarrow> bank_inv b'"
  by (auto simp add: bank_inv_def open_account_def Let_def split: if_splits option.splits)
     (blast+)?

lemma bank_inv_put_account:
  "bank_inv b \<Longrightarrow> bank_inv (put_account b num a)"
  unfolding bank_inv_def put_account_def by (simp add: subset_insertI2)

lemma bank_inv_transfer:
  "bank_inv b \<Longrightarrow> bank_inv (snd (transfer b t1 t2 t3 t4 sn rn amount))"
  by (auto simp add: transfer_def Let_def bank_inv_put_account
      split: option.splits prod.splits sum.splits)

text \<open>
  Claim C10: in a bank that satisfies the invariant and has no user of the given name,
  \<^verbatim>\<open>open_account\<close> with a valid holder name, on a random source that holds a fresh
  candidate number, returns from the generator and raises \<^verbatim>\<open>KeyError\<close>, not a
  \<^verbatim>\<open>BankingError\<close>. The bank it leaves holds the new account under its number, and no
  user's list of owned accounts contains that number.
\<close>

theorem open_account_unregistered_user:
  assumes "bank_inv b" "users b uname = None" "validate_name holder"
    "10 * Suc k \<le> length rng"
    "map str_digit (take 10 (drop (10 * k) rng)) \<notin> dom (accounts b)"
  shows "\<exists>num. generate_account_number b rng = Some num \<and> accounts b num = None \<and>
      open_account b rng uname holder ty =
        Some (Inl (KeyError uname),
              b\<lparr>accounts := (accounts b)
                 (num \<mapsto> (if ty = SAVINGS then SavingsAccount_init num holder
                           else CurrentAccount_init num holder))\<rparr>) \<and>
      (\<forall>b'. open_account b rng uname holder ty = Some (Inl (KeyError uname), b') \<longrightarrow>
         num \<in> dom (accounts b') \<and>
         (\<forall>u owned. account_holders b' u = Some owned \<longrightarrow> num \<notin> set owned))"
proof -
  obtain num where g: "generate_account_number b rng = Some num"
    using generate_account_number_returns [OF assms(4,5)] by blast
  then have fresh: "num \<notin> dom (accounts b)" by (rule generate_account_number_fresh)
  have nokey: "account_holders b uname = None"
    using assms(1,2) by (auto simp add: bank_inv_def)
  have owned: "\<And>u owned. account_holders b u = Some owned \<Longrightarrow> num \<notin> set owned"
    using assms(1) fresh by (auto simp add: bank_inv_def)
  have o: "open_account b rng uname holder ty =
        Some (Inl (KeyError uname),
              b\<lparr>accounts := (accounts b)
                 (num \<mapsto> (if ty = SAVINGS then SavingsAccount_init num holder
                           else CurrentAccount_init num holder))\<rparr>)"
    using assms(3) g nokey by (simp add: open_account_def Let_def)
  show ?thesis
    using g fresh o owned by (intro exI [where x = num]) auto
qed

theorem open_account_unregistered_user_witness:
  "bank_inv example_registry \<and> users example_registry ''ghost_01'' = None \<and>
   validate_name ''Bob Jones'' \<and>
   open_account example_registry [1, 2, 3, 4, 5, 6, 7, 8, 9, 0, 0, 0, 0, 0, 0, 0, 0, 0, 0, 7]
       ''ghost_01'' ''Bob Jones'' CURRENT =
     Some (Inl (KeyError ''ghost_01''),
           example_registry\<lparr>accounts := (accounts example_registry)
             (''0000000007'' \<mapsto> CurrentAccount_init ''0000000007'' ''Bob Jones'')\<rparr>) \<and>
   get_user_accounts
     (example_registry\<lparr>accounts := (accounts example_registry)
        (''0000000007'' \<mapsto> CurrentAccount_init ''0000000007'' ''Bob Jones'')\<rparr>) ''alice_01'' =
     [''1234567890'']"
proof -
  have i: "bank_inv example_registry"
    by (auto simp add: bank_inv_def example_registry_def split: if_splits)
  have u: "users example_registry ''ghost_01'' = None"
    by (simp add: example_registry_def)
  have n: "validate_name ''Bob Jones''"
    by code_simp
  have l: "10 * Suc 1 \<le> length [1, 2, 3, 4, 5, 6, 7, 8, 9, 0, 0, 0, 0, 0, 0, 0, 0, 0, 0, 7 :: nat]"
    by simp
  have f: "map str_digit (take 10 (drop (10 * 1)
             [1, 2, 3, 4, 5, 6, 7, 8, 9, 0, 0, 0, 0, 0, 0, 0, 0, 0, 0, 7]))
           \<notin> dom (accounts example_registry)"
    by (simp add: str_digit_def example_registry_def)
  have g: "generate_account_number example_registry
             [1, 2, 3, 4, 5, 6, 7, 8, 9, 0, 0, 0, 0, 0, 0, 0, 0, 0, 0, 7] = Some ''0000000007''"
    by (simp add: generate_account_number.simps str_digit_def example_registry_def)
  have h: "get_user_accounts
     (example_registry\<lparr>accounts := (accounts example_registry)
        (''0000000007'' \<mapsto> CurrentAccount_init ''0000000007'' ''Bob Jones'')\<rparr>) ''alice_01'' =
     [''1234567890'']"
    by (simp add: get_user_accounts_def example_registry_def)
  from open_account_unregistered_user [OF i u n l f, of CURRENT] g i u n h
  show ?thesis by simp
qed

end
